theory Spec2Isabelle
  imports Complex_Main "HOL-Library.Sublist"
begin

section \<open>Go strings and the functions of package \<open>strings\<close> the plugin calls\<close>

text \<open>
  A Go string is a sequence of bytes, and so is \<^typ>\<open>string\<close>: \<open>len\<close> is
  \<^const>\<open>length\<close>, text beyond ASCII is written as its UTF-8 bytes.
  \<open>strings.HasPrefix\<close>, \<open>strings.HasSuffix\<close> and \<open>strings.TrimPrefix\<close> compare bytes.
\<close>

definition HasPrefix :: "string \<Rightarrow> string \<Rightarrow> bool" where
  "HasPrefix s p = prefix p s"

definition HasSuffix :: "string \<Rightarrow> string \<Rightarrow> bool" where
  "HasSuffix s p = suffix p s"

definition TrimPrefix :: "string \<Rightarrow> string \<Rightarrow> string" where
  "TrimPrefix s p = (if HasPrefix s p then drop (length p) s else s)"

text \<open>
  \<open>strings.TrimSpace\<close> removes leading and trailing white space "as defined by Unicode"
  (\<open>unicode.IsSpace\<close>): U+0009..U+000D, U+0020, U+0085, U+00A0, U+1680, U+2000..U+200A,
  U+2028, U+2029, U+202F, U+205F and U+3000. On the bytes of a string that is: the UTF-8
  encoding of one of these code points is taken off the front while there is one, then off
  the back while there is one. (A front or back that is not such an encoding decodes to
  another code point or to U+FFFD, which is not white space, and stops the trimming.)
\<close>

definition whiteSpace :: "string list" where
  "whiteSpace =
     map (\<lambda>c. [c]) [CHR 0x09, CHR 0x0A, CHR 0x0B, CHR 0x0C, CHR 0x0D, CHR 0x20] @
     [[CHR 0xC2, CHR 0x85], [CHR 0xC2, CHR 0xA0], [CHR 0xE1, CHR 0x9A, CHR 0x80]] @
     map (\<lambda>c. [CHR 0xE2, CHR 0x80, c])
       [CHR 0x80, CHR 0x81, CHR 0x82, CHR 0x83, CHR 0x84, CHR 0x85, CHR 0x86, CHR 0x87,
        CHR 0x88, CHR 0x89, CHR 0x8A, CHR 0xA8, CHR 0xA9, CHR 0xAF] @
     [[CHR 0xE2, CHR 0x81, CHR 0x9F], [CHR 0xE3, CHR 0x80, CHR 0x80]]"

definition leadingSpace :: "string \<Rightarrow> string option" where
  "leadingSpace s = find (\<lambda>w. prefix w s) whiteSpace"

definition trailingSpace :: "string \<Rightarrow> string option" where
  "trailingSpace s = find (\<lambda>w. suffix w s) whiteSpace"

function TrimLeft :: "string \<Rightarrow> string" where
  "TrimLeft s =
     (case leadingSpace s of
        None \<Rightarrow> s
      | Some w \<Rightarrow> TrimLeft (drop (length w) s))"
  by pat_completeness auto
termination
proof (relation "measure length")
  fix s w
  assume "leadingSpace s = Some w"
  then have "w \<in> set whiteSpace" and "prefix w s"
    by (auto simp: leadingSpace_def find_Some_iff)
  then have "w \<noteq> []" and "length w \<le> length s"
    by (auto simp: whiteSpace_def dest: prefix_length_le)
  then show "(drop (length w) s, s) \<in> measure length"
    by (cases w) auto
qed simp

function TrimRight :: "string \<Rightarrow> string" where
  "TrimRight s =
     (case trailingSpace s of
        None \<Rightarrow> s
      | Some w \<Rightarrow> TrimRight (take (length s - length w) s))"
  by pat_completeness auto
termination
proof (relation "measure length")
  fix s w
  assume "trailingSpace s = Some w"
  then have "w \<in> set whiteSpace" and "suffix w s"
    by (auto simp: trailingSpace_def find_Some_iff)
  then have "w \<noteq> []" and "length w \<le> length s"
    by (auto simp: whiteSpace_def dest: suffix_length_le)
  then show "(take (length s - length w) s, s) \<in> measure length"
    by (cases w) auto
qed simp

declare TrimLeft.simps [simp del] TrimRight.simps [simp del]

definition TrimSpace :: "string \<Rightarrow> string" where
  "TrimSpace s = TrimRight (TrimLeft s)"

text \<open>
  \<open>strings.Index(s, substr)\<close> is the byte index of the first instance of \<open>substr\<close> in
  \<open>s\<close>, or \<open>-1\<close> when there is none.
\<close>

fun Index :: "string \<Rightarrow> string \<Rightarrow> int" where
  "Index [] sub = (if sub = [] then 0 else - 1)"
| "Index (c # cs) sub =
     (if prefix sub (c # cs) then 0
      else (let i = Index cs sub in if i = - 1 then - 1 else i + 1))"

text \<open>
  A slice expression \<open>s[lo:hi]\<close> panics at run time unless \<open>0 \<le> lo \<le> hi \<le> len(s)\<close>
  ("slice bounds out of range").
\<close>

datatype panic = SliceBoundsOutOfRange int int

definition slice :: "string \<Rightarrow> int \<Rightarrow> int \<Rightarrow> panic + string" where
  "slice s lo hi =
     (if 0 \<le> lo \<and> lo \<le> hi \<and> hi \<le> int (length s)
      then Inr (take (nat (hi - lo)) (drop (nat lo) s))
      else Inl (SliceBoundsOutOfRange lo hi))"

section \<open>The output sanitizer (\<open>server/provider.go\<close>, \<open>cleanTranslationOutput\<close>)\<close>

definition unwantedPrefixes :: "string list" where
  "unwantedPrefixes =
     [''Translation: '', ''Translated text: '', ''Here is the translation: '',
      ''The translation is: '', ''Output: '', ''Answer: '', ''Result: '']"

text \<open>One round of the loop over \<open>unwantedPrefixes\<close>.\<close>

definition stripPrefix :: "string \<Rightarrow> string \<Rightarrow> string" where
  "stripPrefix text p =
     (if HasPrefix text p then TrimSpace (TrimPrefix text p) else text)"

definition stripUnwantedPrefixes :: "string \<Rightarrow> string" where
  "stripUnwantedPrefixes text = foldl stripPrefix text unwantedPrefixes"

text \<open>The condition of the quote-removing \<open>if\<close>: \<open>0x22\<close> is \<open>"\<close>, \<open>0x27\<close> is \<open>'\<close>.\<close>

definition quoted :: "string \<Rightarrow> bool" where
  "quoted text \<longleftrightarrow>
     (HasPrefix text [CHR 0x22] \<and> HasSuffix text [CHR 0x22]) \<or>
     (HasPrefix text [CHR 0x27] \<and> HasSuffix text [CHR 0x27])"

definition stripQuotes :: "string \<Rightarrow> panic + string" where
  "stripQuotes text =
     (if quoted text
      then (case slice text 1 (int (length text) - 1) of
              Inl e \<Rightarrow> Inl e
            | Inr t \<Rightarrow> Inr (TrimSpace t))
      else Inr text)"

text \<open>\<open>if idx := strings.Index(text, marker); idx != -1 { text = text[:idx] }\<close>\<close>

definition truncateAt :: "string \<Rightarrow> string \<Rightarrow> panic + string" where
  "truncateAt marker text =
     (let idx = Index text marker in
      if idx \<noteq> - 1 then slice text 0 idx else Inr text)"

definition noteMarker :: string where
  "noteMarker = [CHR 0x0A, CHR 0x0A] @ ''Note:''"

definition explanationMarker :: string where
  "explanationMarker = [CHR 0x0A, CHR 0x0A] @ ''Explanation:''"

definition cleanTranslationOutput :: "string \<Rightarrow> panic + string" where
  "cleanTranslationOutput text =
     (case stripQuotes (stripUnwantedPrefixes (TrimSpace text)) of
        Inl e \<Rightarrow> Inl e
      | Inr t3 \<Rightarrow>
          (case truncateAt noteMarker t3 of
             Inl e \<Rightarrow> Inl e
           | Inr t4 \<Rightarrow>
               (case truncateAt explanationMarker t4 of
                  Inl e \<Rightarrow> Inl e
                | Inr t5 \<Rightarrow> Inr (TrimSpace t5))))"

section \<open>The language catalog (\<open>server/provider.go\<close>)\<close>

text \<open>
  The two Go map literals, as association lists (the keys of a map literal are distinct);
  values beyond ASCII are written as their UTF-8 bytes.
\<close>

definition clarifications :: "(string \<times> string) list" where
  "clarifications =
     [(''ko'', '' ('' @ [CHR 0xED, CHR 0x95, CHR 0x9C, CHR 0xEA, CHR 0xB5, CHR 0xAD, CHR 0xEC, CHR 0x96, CHR 0xB4] @ '', using Hangul script, NOT Chinese)''),
      (''ja'', '' ('' @ [CHR 0xE6, CHR 0x97, CHR 0xA5, CHR 0xE6, CHR 0x9C, CHR 0xAC, CHR 0xE8, CHR 0xAA, CHR 0x9E] @ '', using Hiragana/Katakana/Kanji, NOT Chinese or Korean)''),
      (''zh'', '' ('' @ [CHR 0xE4, CHR 0xB8, CHR 0xAD, CHR 0xE6, CHR 0x96, CHR 0x87, CHR 0xE7, CHR 0xAE, CHR 0x80, CHR 0xE4, CHR 0xBD, CHR 0x93] @ '', Simplified Chinese characters)''),
      (''zh-TW'', '' ('' @ [CHR 0xE4, CHR 0xB8, CHR 0xAD, CHR 0xE6, CHR 0x96, CHR 0x87, CHR 0xE7, CHR 0xB9, CHR 0x81, CHR 0xE9, CHR 0xAB, CHR 0x94] @ '', Traditional Chinese characters)''),
      (''en'', '' (English)''),
      (''ar'', '' ('' @ [CHR 0xD8, CHR 0xA7, CHR 0xD9, CHR 0x84, CHR 0xD8, CHR 0xB9, CHR 0xD8, CHR 0xB1, CHR 0xD8, CHR 0xA8, CHR 0xD9, CHR 0x8A, CHR 0xD8, CHR 0xA9] @ '', Arabic script)''),
      (''he'', '' ('' @ [CHR 0xD7, CHR 0xA2, CHR 0xD7, CHR 0x91, CHR 0xD7, CHR 0xA8, CHR 0xD7, CHR 0x99, CHR 0xD7, CHR 0xAA] @ '', Hebrew script)''),
      (''hi'', '' ('' @ [CHR 0xE0, CHR 0xA4, CHR 0xB9, CHR 0xE0, CHR 0xA4, CHR 0xBF, CHR 0xE0, CHR 0xA4, CHR 0xA8, CHR 0xE0, CHR 0xA5, CHR 0x8D, CHR 0xE0, CHR 0xA4, CHR 0xA6, CHR 0xE0, CHR 0xA5, CHR 0x80] @ '', Devanagari script)''),
      (''ru'', '' ('' @ [CHR 0xD0, CHR 0xA0, CHR 0xD1, CHR 0x83, CHR 0xD1, CHR 0x81, CHR 0xD1, CHR 0x81, CHR 0xD0, CHR 0xBA, CHR 0xD0, CHR 0xB8, CHR 0xD0, CHR 0xB9] @ '', Cyrillic script)''),
      (''th'', '' ('' @ [CHR 0xE0, CHR 0xB9, CHR 0x84, CHR 0xE0, CHR 0xB8, CHR 0x97, CHR 0xE0, CHR 0xB8, CHR 0xA2] @ '', Thai script)'')]"

definition getLanguageClarification :: "string \<Rightarrow> string" where
  "getLanguageClarification code =
     (case map_of clarifications code of
        Some clarification \<Rightarrow> clarification
      | None \<Rightarrow> [])"

definition languageNames :: "(string \<times> string) list" where
  "languageNames =
     [(''auto'', ''Auto-detect''),
      (''af'', ''Afrikaans''),
      (''sq'', ''Albanian''),
      (''am'', ''Amharic''),
      (''ar'', ''Arabic''),
      (''hy'', ''Armenian''),
      (''az'', ''Azerbaijani''),
      (''bn'', ''Bengali''),
      (''bs'', ''Bosnian''),
      (''bg'', ''Bulgarian''),
      (''ca'', ''Catalan''),
      (''zh'', ''Chinese (Simplified)''),
      (''zh-TW'', ''Chinese (Traditional)''),
      (''hr'', ''Croatian''),
      (''cs'', ''Czech''),
      (''da'', ''Danish''),
      (''fa-AF'', ''Dari''),
      (''nl'', ''Dutch''),
      (''en'', ''English''),
      (''et'', ''Estonian''),
      (''fa'', ''Farsi (Persian)''),
      (''tl'', ''Filipino, Tagalog''),
      (''fi'', ''Finnish''),
      (''fr'', ''French''),
      (''fr-CA'', ''French (Canada)''),
      (''ka'', ''Georgian''),
      (''de'', ''German''),
      (''el'', ''Greek''),
      (''gu'', ''Gujarati''),
      (''ht'', ''Haitian Creole''),
      (''ha'', ''Hausa''),
      (''he'', ''Hebrew''),
      (''hi'', ''Hindi''),
      (''hu'', ''Hungarian''),
      (''is'', ''Icelandic''),
      (''id'', ''Indonesian''),
      (''it'', ''Italian''),
      (''ja'', ''Japanese''),
      (''kn'', ''Kannada''),
      (''kk'', ''Kazakh''),
      (''ko'', ''Korean''),
      (''lv'', ''Latvian''),
      (''lt'', ''Lithuanian''),
      (''mk'', ''Macedonian''),
      (''ms'', ''Malay''),
      (''ml'', ''Malayalam''),
      (''mt'', ''Maltese''),
      (''mr'', ''Marathi''),
      (''mn'', ''Mongolian''),
      (''no'', ''Norwegian''),
      (''ps'', ''Pashto''),
      (''pl'', ''Polish''),
      (''pt'', ''Portuguese''),
      (''pa'', ''Punjabi''),
      (''ro'', ''Romanian''),
      (''ru'', ''Russian''),
      (''sr'', ''Serbian''),
      (''si'', ''Sinhala''),
      (''sk'', ''Slovak''),
      (''sl'', ''Slovenian''),
      (''so'', ''Somali''),
      (''es'', ''Spanish''),
      (''es-MX'', ''Spanish (Mexico)''),
      (''sw'', ''Swahili''),
      (''sv'', ''Swedish''),
      (''ta'', ''Tamil''),
      (''te'', ''Telugu''),
      (''th'', ''Thai''),
      (''tr'', ''Turkish''),
      (''uk'', ''Ukrainian''),
      (''ur'', ''Urdu''),
      (''uz'', ''Uzbek''),
      (''vi'', ''Vietnamese''),
      (''cy'', ''Welsh'')]"

definition getLanguageName :: "string \<Rightarrow> string" where
  "getLanguageName code =
     (case map_of languageNames code of
        Some name \<Rightarrow> name
      | None \<Rightarrow> code)"

section \<open>The prompt builders (\<open>server/provider.go\<close>)\<close>

text \<open>
  \<open>VLLMProvider.createTranslationPrompt\<close>; the receiver is not used. \<open>fmt.Sprintf\<close>
  with \<open>%s\<close> verbs is concatenation, and the raw string literals hold an empty line
  (two line feeds, \<open>0x0A\<close>) before the text.
\<close>

definition createTranslationPrompt :: "string \<Rightarrow> string \<Rightarrow> string \<Rightarrow> string" where
  "createTranslationPrompt text sourceLang targetLang =
     (let sourceLanguageName = getLanguageName sourceLang;
          targetLanguageName = getLanguageName targetLang;
          targetClarification = getLanguageClarification targetLang;
          sourceClarification =
            (if sourceLang \<noteq> ''auto'' then getLanguageClarification sourceLang else [])
      in if sourceLang = ''auto''
         then ''Translate to '' @ targetLanguageName @ targetClarification @
              ''. Reply with ONLY the translation.'' @ [CHR 0x0A, CHR 0x0A] @ text
         else ''Translate from '' @ sourceLanguageName @ sourceClarification @
              '' to '' @ targetLanguageName @ targetClarification @
              ''. Reply with ONLY the translation.'' @ [CHR 0x0A, CHR 0x0A] @ text)"

text \<open>The variable \<open>userPrompt\<close> of \<open>LiteLLMProvider.Translate\<close>.\<close>

definition userPrompt :: "string \<Rightarrow> string \<Rightarrow> string \<Rightarrow> string" where
  "userPrompt text sourceLang targetLang =
     (let sourceLanguageName = getLanguageName sourceLang;
          targetLanguageName = getLanguageName targetLang;
          targetClarification = getLanguageClarification targetLang;
          sourceClarification =
            (if sourceLang \<noteq> ''auto'' then getLanguageClarification sourceLang else [])
      in if sourceLang = ''auto''
         then ''Translate to '' @ targetLanguageName @ targetClarification @
              '':'' @ [CHR 0x0A, CHR 0x0A] @ text
         else ''Translate from '' @ sourceLanguageName @ sourceClarification @
              '' to '' @ targetLanguageName @ targetClarification @
              '':'' @ [CHR 0x0A, CHR 0x0A] @ text)"

section \<open>The LLM-backed providers (\<open>server/provider.go\<close>)\<close>

subsection \<open>What a call of \<open>Translate\<close> can return, and the HTTP exchange\<close>

text \<open>
  \<open>Translate\<close> returns \<open>(string, error)\<close>; the error is kept as its message. A run-time
  panic inside the call is a third outcome.
\<close>

datatype failure = Err string | Panicked panic

text \<open>
  The network is outside the program: the exchange is a function from the request that
  was built to what came of it. \<open>http.NewRequest\<close> or \<open>client.Do\<close> fails with a message,
  or a response arrives. A response carries its status, its body as text, and what
  \<open>json.NewDecoder(resp.Body).Decode\<close> makes of the body: an error message or the
  \<open>choices\<close> array.
\<close>

record 'b Request =
  Method :: string
  URL :: string
  Header :: "string \<rightharpoonup> string"
  Body :: 'b

record 'c Response =
  StatusCode :: int
  Body :: string
  Decoded :: "string + 'c list"

datatype 'c transport =
    NewRequestError string
  | DoError string
  | Responded "'c Response"

text \<open>The verb \<open>%d\<close> of \<open>fmt\<close>: a decimal numeral.\<close>

fun natDecimal :: "nat \<Rightarrow> string" where
  "natDecimal n =
     (if n < 10 then [char_of (48 + n)]
      else natDecimal (n div 10) @ [char_of (48 + n mod 10)])"

declare natDecimal.simps [simp del]

definition formatInt :: "int \<Rightarrow> string" where
  "formatInt i = (if i < 0 then ''-'' @ natDecimal (nat (- i)) else natDecimal (nat i))"

text \<open>The headers both providers set.\<close>

definition requestHeader :: "string \<Rightarrow> string \<rightharpoonup> string" where
  "requestHeader key =
     (let h = [''Content-Type'' \<mapsto> ''application/json'']
      in if key \<noteq> [] then h(''Authorization'' \<mapsto> ''Bearer '' @ key) else h)"

subsection \<open>The completion-style provider, \<open>VLLMProvider\<close>\<close>

record VLLMProvider =
  apiURL :: string
  apiKey :: string
  model :: string

record VLLMRequest =
  Model :: string
  Prompt :: string
  MaxTokens :: int
  Temperature :: real
  Stop :: "string list"

text \<open>
  The keys \<open>json.Marshal\<close> writes for a \<open>VLLMRequest\<close>, from its struct tags: a field
  tagged \<open>omitempty\<close> is left out when it is zero or empty.
\<close>

definition VLLMRequest_keys :: "VLLMRequest \<Rightarrow> string list" where
  "VLLMRequest_keys r =
     [''model'', ''prompt''] @
     (if VLLMRequest.MaxTokens r = 0 then [] else [''max_tokens'']) @
     (if VLLMRequest.Temperature r = 0 then [] else [''temperature'']) @
     (if Stop r = [] then [] else [''stop''])"

text \<open>The variable \<open>reqBody\<close> of \<open>VLLMProvider.Translate\<close>.\<close>

definition VLLM_reqBody :: "VLLMProvider \<Rightarrow> string \<Rightarrow> string \<Rightarrow> string \<Rightarrow> VLLMRequest" where
  "VLLM_reqBody p text sourceLang targetLang =
     \<lparr>VLLMRequest.Model = VLLMProvider.model p,
      Prompt = createTranslationPrompt text sourceLang targetLang,
      MaxTokens = 512,
      Temperature = 1 / 10,
      Stop = [[CHR 0x0A, CHR 0x0A],
              [CHR 0x0A] @ ''Note:'',
              [CHR 0x0A] @ ''Explanation:'',
              [CHR 0x0A] @ ''Translation:'',
              [CHR 0x0A, CHR 0x0A] @ ''Input:'',
              ''[/INST]'']\<rparr>"

definition VLLM_req ::
  "VLLMProvider \<Rightarrow> string \<Rightarrow> string \<Rightarrow> string \<Rightarrow> VLLMRequest Request" where
  "VLLM_req p text sourceLang targetLang =
     \<lparr>Method = ''POST'',
      URL = VLLMProvider.apiURL p,
      Header = requestHeader (VLLMProvider.apiKey p),
      Body = VLLM_reqBody p text sourceLang targetLang\<rparr>"

text \<open>
  \<open>VLLMProvider.Translate\<close>. A choice of the response is a struct with the one field
  \<open>Text\<close>, so \<open>choices\<close> is a list of strings; \<open>len(choices) == 0\<close> is the case
  \<open>[]\<close> and \<open>choices[0]\<close> the head otherwise. (\<open>json.Marshal\<close> cannot fail on a
  \<open>VLLMRequest\<close>: strings, an int, a finite float and a list of strings.)
\<close>

definition VLLM_Translate ::
  "(VLLMRequest Request \<Rightarrow> string transport) \<Rightarrow> VLLMProvider \<Rightarrow>
     string \<Rightarrow> string \<Rightarrow> string \<Rightarrow> failure + string" where
  "VLLM_Translate http p text sourceLang targetLang =
     (case http (VLLM_req p text sourceLang targetLang) of
        NewRequestError err \<Rightarrow> Inl (Err (''failed to create request: '' @ err))
      | DoError err \<Rightarrow> Inl (Err (''vLLM API request failed: '' @ err))
      | Responded resp \<Rightarrow>
          if StatusCode resp \<noteq> 200
          then Inl (Err (''vLLM API error (status '' @ formatInt (StatusCode resp) @ ''): '' @
                 Response.Body resp))
          else (case Decoded resp of
                  Inl err \<Rightarrow> Inl (Err (''failed to decode response: '' @ err))
                | Inr choices \<Rightarrow>
                    (case choices of
                       [] \<Rightarrow> Inl (Err ''no translation returned from vLLM'')
                     | choice # _ \<Rightarrow>
                         (case cleanTranslationOutput choice of
                            Inl pn \<Rightarrow> Inl (Panicked pn)
                          | Inr translatedText \<Rightarrow> Inr translatedText))))"

subsection \<open>The chat-style provider, \<open>LiteLLMProvider\<close>\<close>

record LiteLLMProvider =
  apiURL :: string
  apiKey :: string
  model :: string

record LiteLLMChatMessage =
  Role :: string
  Content :: string

record LiteLLMChatRequest =
  Model :: string
  Messages :: "LiteLLMChatMessage list"
  Temperature :: real
  MaxTokens :: int

definition LiteLLMChatRequest_keys :: "LiteLLMChatRequest \<Rightarrow> string list" where
  "LiteLLMChatRequest_keys r =
     [''model'', ''messages''] @
     (if LiteLLMChatRequest.Temperature r = 0 then [] else [''temperature'']) @
     (if LiteLLMChatRequest.MaxTokens r = 0 then [] else [''max_tokens''])"

definition LiteLLM_reqBody ::
  "LiteLLMProvider \<Rightarrow> string \<Rightarrow> string \<Rightarrow> string \<Rightarrow> LiteLLMChatRequest" where
  "LiteLLM_reqBody p text sourceLang targetLang =
     \<lparr>LiteLLMChatRequest.Model = LiteLLMProvider.model p,
      Messages =
        [\<lparr>Role = ''system'',
          Content = ''You are a translation system. Output ONLY the translated text '' @
                    ''without any explanations, notes, or additional commentary.''\<rparr>,
         \<lparr>Role = ''user'', Content = userPrompt text sourceLang targetLang\<rparr>],
      Temperature = 3 / 10,
      MaxTokens = 2048\<rparr>"

definition LiteLLM_req ::
  "LiteLLMProvider \<Rightarrow> string \<Rightarrow> string \<Rightarrow> string \<Rightarrow> LiteLLMChatRequest Request" where
  "LiteLLM_req p text sourceLang targetLang =
     \<lparr>Method = ''POST'',
      URL = LiteLLMProvider.apiURL p,
      Header = requestHeader (LiteLLMProvider.apiKey p),
      Body = LiteLLM_reqBody p text sourceLang targetLang\<rparr>"

text \<open>
  \<open>LiteLLMProvider.Translate\<close>. A choice of the response is a struct with the one field
  \<open>Message\<close>, a \<open>LiteLLMChatMessage\<close>.
\<close>

definition LiteLLM_Translate ::
  "(LiteLLMChatRequest Request \<Rightarrow> LiteLLMChatMessage transport) \<Rightarrow> LiteLLMProvider \<Rightarrow>
     string \<Rightarrow> string \<Rightarrow> string \<Rightarrow> failure + string" where
  "LiteLLM_Translate http p text sourceLang targetLang =
     (case http (LiteLLM_req p text sourceLang targetLang) of
        NewRequestError err \<Rightarrow> Inl (Err (''failed to create request: '' @ err))
      | DoError err \<Rightarrow> Inl (Err (''LiteLLM API request failed: '' @ err))
      | Responded resp \<Rightarrow>
          if StatusCode resp \<noteq> 200
          then Inl (Err (''LiteLLM API error (status '' @ formatInt (StatusCode resp) @ ''): '' @
                 Response.Body resp))
          else (case Decoded resp of
                  Inl err \<Rightarrow> Inl (Err (''failed to decode response: '' @ err))
                | Inr choices \<Rightarrow>
                    (case choices of
                       [] \<Rightarrow> Inl (Err ''no translation returned from LiteLLM'')
                     | choice # _ \<Rightarrow>
                         (case cleanTranslationOutput (Content choice) of
                            Inl pn \<Rightarrow> Inl (Panicked pn)
                          | Inr translatedText \<Rightarrow> Inr translatedText))))"

section \<open>The event gate (\<open>MessageHasBeenPosted\<close>)\<close>

subsection \<open>Posts, users, preferences and the plugin's surroundings\<close>

text \<open>
  The fields of \<open>model.Post\<close> the handler reads or sets. A value of the \<open>Props\<close> map is
  a bool, a string or the list of attachments; a map that is \<open>nil\<close> has no key, as the
  empty map.
\<close>

record SlackAttachment =
  Text :: string
  Pretext :: string
  Color :: string

datatype propValue = PropBool bool | PropString string | PropAttachments "SlackAttachment list"

record Post =
  Id :: string
  ChannelId :: string
  UserId :: string
  RootId :: string
  Message :: string
  Type :: string
  Props :: "string \<rightharpoonup> propValue"

text \<open>
  \<open>Post.IsSystemMessage\<close> of the Mattermost model package: the type of the post starts
  with \<open>system_\<close>.
\<close>

definition IsSystemMessage :: "Post \<Rightarrow> bool" where
  "IsSystemMessage post = HasPrefix (Type post) ''system_''"

record User =
  IsBot :: bool

record UserInfo =
  Activated :: bool
  SourceLanguage :: string
  TargetLanguage :: string

record configuration =
  BotUsername :: string
  BotIconURL :: string

text \<open>
  The interface \<open>TranslationProvider\<close> is used through its method \<open>Translate\<close>.
  The plugin's helpers and the host API are not part of the handler; they are taken as
  given: each answers with an error message or a value.
\<close>

type_synonym TranslationProvider = "string \<Rightarrow> string \<Rightarrow> string \<Rightarrow> failure + string"

record Plugin =
  getConfiguration :: configuration
  GetUser :: "string \<Rightarrow> string + User"
  getUserInfo :: "string \<Rightarrow> string + UserInfo"
  getTranslationProvider :: "string + TranslationProvider"
  CreatePost :: "Post \<Rightarrow> string + Post"

text \<open>
  What the handler does to the outside: the calls of \<open>p.API.LogError\<close> (message and
  error text) and of \<open>p.API.CreatePost\<close>, in order. The handler returns no value.
\<close>

datatype effect = LogError string string | CreatePostCall Post

subsection \<open>\<open>server/activate_hooks.go\<close>\<close>

text \<open>The local variables after the same-text check, up to the composed post.\<close>

definition sourceLangDisplay :: "UserInfo \<Rightarrow> string" where
  "sourceLangDisplay userInfo =
     (if SourceLanguage userInfo = ''auto'' then ''detected'' else SourceLanguage userInfo)"

definition botUsername :: "configuration \<Rightarrow> string" where
  "botUsername cfg = (if BotUsername cfg = [] then ''autotranslate-bot'' else BotUsername cfg)"

text \<open>\<open>fmt.Sprintf("**[%s -> %s]**\n%s", ...)\<close>, the arrow being U+2192 (\<open>E2 86 92\<close>).\<close>

definition botMessage :: "UserInfo \<Rightarrow> string \<Rightarrow> string" where
  "botMessage userInfo translatedText =
     ''**['' @ sourceLangDisplay userInfo @ '' '' @ [CHR 0xE2, CHR 0x86, CHR 0x92] @ '' '' @
     TargetLanguage userInfo @ '']**'' @ [CHR 0x0A] @ translatedText"

definition translatedPost :: "configuration \<Rightarrow> Post \<Rightarrow> UserInfo \<Rightarrow> string \<Rightarrow> Post" where
  "translatedPost cfg post userInfo translatedText =
     \<lparr>Id = [],
      ChannelId = ChannelId post,
      UserId = UserId post,
      RootId = Id post,
      Message = botMessage userInfo translatedText,
      Type = [],
      Props = [''from_plugin'' \<mapsto> PropBool True,
               ''override_username'' \<mapsto> PropString (botUsername cfg),
               ''override_icon_url'' \<mapsto> PropString (BotIconURL cfg),
               ''disable_group_highlight'' \<mapsto> PropBool True]\<rparr>"

text \<open>
  The handler of \<open>server/activate_hooks.go\<close>. The handler of \<open>unnamed/part_001\<close> has the
  same body (its error variables have other names).
\<close>

definition MessageHasBeenPosted :: "Plugin \<Rightarrow> Post \<Rightarrow> panic + effect list" where
  "MessageHasBeenPosted p post =
     (if IsSystemMessage post then Inr []
      else
        (case GetUser p (UserId post) of
           Inl err \<Rightarrow> Inr [LogError ''Failed to get user'' err]
         | Inr user \<Rightarrow>
             if IsBot user then Inr []
             else
               (case getUserInfo p (UserId post) of
                  Inl apiErr \<Rightarrow> Inr []
                | Inr userInfo \<Rightarrow>
                    if \<not> Activated userInfo then Inr []
                    else
                      (case getTranslationProvider p of
                         Inl providerErr \<Rightarrow>
                           Inr [LogError ''Failed to get translation provider'' providerErr]
                       | Inr provider \<Rightarrow>
                           (case provider (Message post) (SourceLanguage userInfo)
                                   (TargetLanguage userInfo) of
                              Inl (Panicked pn) \<Rightarrow> Inl pn
                            | Inl (Err translateErr) \<Rightarrow>
                                Inr [LogError ''Failed to translate message'' translateErr]
                            | Inr translatedText \<Rightarrow>
                                if TrimSpace translatedText = TrimSpace (Message post)
                                then Inr []
                                else
                                  (let tp = translatedPost (getConfiguration p) post
                                              userInfo translatedText
                                   in case CreatePost p tp of
                                        Inl err \<Rightarrow>
                                          Inr [CreatePostCall tp,
                                               LogError ''Failed to post translated message'' err]
                                      | Inr _ \<Rightarrow> Inr [CreatePostCall tp]))))))"

subsection \<open>\<open>unnamed/part_000\<close>: the revision with the loop guard and the attachment\<close>

text \<open>
  The pretext is \<open>fmt.Sprintf("<globe> **Translation** [%s -> %s]", ...)\<close>, the globe being
  U+1F310 (\<open>F0 9F 8C 90\<close>).
\<close>

definition translatedPost_part_000 ::
  "configuration \<Rightarrow> Post \<Rightarrow> UserInfo \<Rightarrow> string \<Rightarrow> Post" where
  "translatedPost_part_000 cfg post userInfo translatedText =
     \<lparr>Id = [],
      ChannelId = ChannelId post,
      UserId = UserId post,
      RootId = RootId post,
      Message = [],
      Type = [],
      Props = [''from_plugin'' \<mapsto> PropBool True,
               ''override_username'' \<mapsto> PropString (botUsername cfg),
               ''override_icon_url'' \<mapsto> PropString (BotIconURL cfg),
               ''disable_group_highlight'' \<mapsto> PropBool True,
               ''attachments'' \<mapsto> PropAttachments
                 [\<lparr>Text = translatedText,
                   Pretext = [CHR 0xF0, CHR 0x9F, CHR 0x8C, CHR 0x90] @ '' **Translation** ['' @
                     sourceLangDisplay userInfo @ '' '' @ [CHR 0xE2, CHR 0x86, CHR 0x92] @
                     '' '' @ TargetLanguage userInfo @ '']'',
                   Color = ''#3AA3E3''\<rparr>]]\<rparr>"

definition MessageHasBeenPosted_part_000 :: "Plugin \<Rightarrow> Post \<Rightarrow> panic + effect list" where
  "MessageHasBeenPosted_part_000 p post =
     (if IsSystemMessage post then Inr []
      else if Props post ''from_plugin'' \<noteq> None then Inr []
      else
        (case GetUser p (UserId post) of
           Inl err \<Rightarrow> Inr [LogError ''Failed to get user'' err]
         | Inr user \<Rightarrow>
             if IsBot user then Inr []
             else
               (case getUserInfo p (UserId post) of
                  Inl apiErr \<Rightarrow> Inr []
                | Inr userInfo \<Rightarrow>
                    if \<not> Activated userInfo then Inr []
                    else
                      (case getTranslationProvider p of
                         Inl providerErr \<Rightarrow>
                           Inr [LogError ''Failed to get translation provider'' providerErr]
                       | Inr provider \<Rightarrow>
                           (case provider (Message post) (SourceLanguage userInfo)
                                   (TargetLanguage userInfo) of
                              Inl (Panicked pn) \<Rightarrow> Inl pn
                            | Inl (Err translateErr) \<Rightarrow>
                                Inr [LogError ''Failed to translate message'' translateErr]
                            | Inr translatedText \<Rightarrow>
                                if TrimSpace translatedText = TrimSpace (Message post)
                                then Inr []
                                else
                                  (let tp = translatedPost_part_000 (getConfiguration p) post
                                              userInfo translatedText
                                   in case CreatePost p tp of
                                        Inl err \<Rightarrow>
                                          Inr [CreatePostCall tp,
                                               LogError ''Failed to post translated message'' err]
                                      | Inr _ \<Rightarrow> Inr [CreatePostCall tp]))))))"

text \<open>The posts a run handed to \<open>CreatePost\<close>.\<close>

fun created :: "effect list \<Rightarrow> Post list" where
  "created [] = []"
| "created (CreatePostCall tp # es) = tp # created es"
| "created (LogError _ _ # es) = created es"

definition outbound :: "panic + effect list \<Rightarrow> Post list" where
  "outbound r = (case r of Inl _ \<Rightarrow> [] | Inr es \<Rightarrow> created es)"

section \<open>Example events\<close>

text \<open>
  A user who is not a bot and has translation from Korean to English switched on; a
  host that accepts every post; no bot name configured.
\<close>

definition exampleConfiguration :: configuration where
  "exampleConfiguration = \<lparr>BotUsername = [], BotIconURL = []\<rparr>"

definition exampleUserInfo :: UserInfo where
  "exampleUserInfo = \<lparr>Activated = True, SourceLanguage = ''ko'', TargetLanguage = ''en''\<rparr>"

definition examplePlugin :: "TranslationProvider \<Rightarrow> Plugin" where
  "examplePlugin provider =
     \<lparr>getConfiguration = exampleConfiguration,
      GetUser = (\<lambda>_. Inr \<lparr>IsBot = False\<rparr>),
      getUserInfo = (\<lambda>_. Inr exampleUserInfo),
      getTranslationProvider = Inr provider,
      CreatePost = (\<lambda>tp. Inr tp)\<rparr>"

text \<open>A provider that answers \<open>Hello\<close>, and one that answers the text with a space added.\<close>

definition helloProvider :: TranslationProvider where
  "helloProvider text sourceLang targetLang = Inr ''Hello''"

definition echoProvider :: TranslationProvider where
  "echoProvider text sourceLang targetLang = Inr (text @ '' '')"

text \<open>A top-level post with the Korean greeting (15 bytes of UTF-8) as its message.\<close>

definition annyeonghaseyo :: string where
  "annyeonghaseyo =
     [CHR 0xEC, CHR 0x95, CHR 0x88, CHR 0xEB, CHR 0x85, CHR 0x95, CHR 0xED, CHR 0x95, CHR 0x98,
      CHR 0xEC, CHR 0x84, CHR 0xB8, CHR 0xEC, CHR 0x9A, CHR 0x94]"

definition examplePost :: Post where
  "examplePost =
     \<lparr>Id = ''post1'', ChannelId = ''channel1'', UserId = ''user1'', RootId = [],
      Message = annyeonghaseyo, Type = [], Props = Map.empty\<rparr>"

text \<open>The same message posted as a reply in the thread of \<open>post0\<close>.\<close>

definition replyPost :: Post where
  "replyPost = examplePost\<lparr>Id := ''post2'', RootId := ''post0''\<rparr>"

text \<open>
  The post the handler of \<open>server/activate_hooks.go\<close> composes for \<open>examplePost\<close>, as it
  comes back from the host, which has given it an identifier.
\<close>

definition ownPost :: Post where
  "ownPost =
     (translatedPost exampleConfiguration examplePost exampleUserInfo ''Hello'')
       \<lparr>Id := ''post3''\<rparr>"

text \<open>A backend that answers every request with status 200 and no choice.\<close>

definition noChoices :: "'b Request \<Rightarrow> 'c transport" where
  "noChoices req =
     Responded \<lparr>StatusCode = 200,
                Body = ''{'' @ [CHR 0x22] @ ''choices'' @ [CHR 0x22] @ '':[]}'',
                Decoded = Inr []\<rparr>"

definition exampleVLLM :: VLLMProvider where
  "exampleVLLM =
     \<lparr>VLLMProvider.apiURL = ''http://localhost:8000/v1/completions'',
      apiKey = [], model = ''llama''\<rparr>"

definition exampleLiteLLM :: LiteLLMProvider where
  "exampleLiteLLM =
     \<lparr>LiteLLMProvider.apiURL = ''http://localhost:4000/chat/completions'',
      apiKey = [], model = ''gpt-4''\<rparr>"

section \<open>Properties of the string functions\<close>

text \<open>
  \<open>TrimSpace\<close> leaves no white space at either end, so trimming twice is trimming once,
  and what it returns is a contiguous part of its argument.
\<close>

lemma leadingSpace_None_iff: "leadingSpace s = None \<longleftrightarrow> (\<forall>w \<in> set whiteSpace. \<not> prefix w s)"
  by (auto simp: leadingSpace_def find_None_iff)

lemma trailingSpace_None_iff: "trailingSpace s = None \<longleftrightarrow> (\<forall>w \<in> set whiteSpace. \<not> suffix w s)"
  by (auto simp: trailingSpace_def find_None_iff)

lemma TrimLeft_id: "leadingSpace s = None \<Longrightarrow> TrimLeft s = s"
  by (simp add: TrimLeft.simps)

lemma TrimRight_id: "trailingSpace s = None \<Longrightarrow> TrimRight s = s"
  by (simp add: TrimRight.simps)

lemma leadingSpace_TrimLeft: "leadingSpace (TrimLeft s) = None"
proof (induction s rule: TrimLeft.induct)
  case (1 s)
  show ?case
  proof (cases "leadingSpace s")
    case None
    then show ?thesis by (simp add: TrimLeft_id)
  next
    case (Some w)
    with "1.IH" [OF Some] show ?thesis
      by (simp add: TrimLeft.simps [of s])
  qed
qed

lemma trailingSpace_TrimRight: "trailingSpace (TrimRight s) = None"
proof (induction s rule: TrimRight.induct)
  case (1 s)
  show ?case
  proof (cases "trailingSpace s")
    case None
    then show ?thesis by (simp add: TrimRight_id)
  next
    case (Some w)
    with "1.IH" [OF Some] show ?thesis
      by (simp add: TrimRight.simps [of s])
  qed
qed

lemma suffix_TrimLeft: "suffix (TrimLeft s) s"
proof (induction s rule: TrimLeft.induct)
  case (1 s)
  show ?case
  proof (cases "leadingSpace s")
    case None
    then show ?thesis by (simp add: TrimLeft_id)
  next
    case (Some w)
    have "suffix (TrimLeft (drop (length w) s)) (drop (length w) s)"
      by (rule "1.IH" [OF Some])
    also have "suffix \<dots> s"
      by (rule suffix_drop)
    finally show ?thesis
      using Some by (simp add: TrimLeft.simps [of s])
  qed
qed

lemma prefix_TrimRight: "prefix (TrimRight s) s"
proof (induction s rule: TrimRight.induct)
  case (1 s)
  show ?case
  proof (cases "trailingSpace s")
    case None
    then show ?thesis by (simp add: TrimRight_id)
  next
    case (Some w)
    have "prefix (TrimRight (take (length s - length w) s)) (take (length s - length w) s)"
      by (rule "1.IH" [OF Some])
    also have "prefix \<dots> s"
      by (rule take_is_prefix)
    finally show ?thesis
      using Some by (simp add: TrimRight.simps [of s])
  qed
qed

lemma leadingSpace_prefix: "leadingSpace t = None \<Longrightarrow> prefix u t \<Longrightarrow> leadingSpace u = None"
  unfolding leadingSpace_None_iff by (meson prefix_order.trans)

lemma leadingSpace_TrimSpace: "leadingSpace (TrimSpace s) = None"
  unfolding TrimSpace_def
  by (rule leadingSpace_prefix [OF leadingSpace_TrimLeft prefix_TrimRight])

lemma trailingSpace_TrimSpace: "trailingSpace (TrimSpace s) = None"
  unfolding TrimSpace_def by (rule trailingSpace_TrimRight)

lemma TrimSpace_id: "leadingSpace s = None \<Longrightarrow> trailingSpace s = None \<Longrightarrow> TrimSpace s = s"
  by (simp add: TrimSpace_def TrimLeft_id TrimRight_id)

lemma TrimSpace_TrimSpace: "TrimSpace (TrimSpace s) = TrimSpace s"
  by (rule TrimSpace_id [OF leadingSpace_TrimSpace trailingSpace_TrimSpace])

lemma sublist_TrimSpace: "sublist (TrimSpace s) s"
  unfolding TrimSpace_def sublist_altdef'
  using suffix_TrimLeft prefix_TrimRight by blast

text \<open>
  \<open>Index\<close> is \<open>-1\<close> exactly when there is no occurrence, and lies within the string
  otherwise; the text before the first occurrence holds none.
\<close>

lemma Index_range: "Index s m = - 1 \<or> (0 \<le> Index s m \<and> Index s m \<le> int (length s))"
  by (induction s) (auto simp: Let_def)

lemma Index_none: "Index s m = - 1 \<longleftrightarrow> \<not> sublist m s"
proof (induction s)
  case Nil
  then show ?case by simp
next
  case (Cons c cs)
  have "0 \<le> Index cs m \<or> Index cs m = - 1"
    using Index_range [of cs m] by auto
  with Cons show ?case
    by (auto simp: Let_def sublist_Cons_right)
qed

lemma Index_first: "m \<noteq> [] \<Longrightarrow> Index s m \<noteq> - 1 \<Longrightarrow> \<not> sublist m (take (nat (Index s m)) s)"
proof (induction s)
  case Nil
  then show ?case by simp
next
  case (Cons c cs)
  show ?case
  proof (cases "prefix m (c # cs)")
    case True
    with Cons.prems show ?thesis by simp
  next
    case False
    with Cons.prems have i: "Index cs m \<noteq> - 1"
      by (auto simp: Let_def split: if_splits)
    then have pos: "0 \<le> Index cs m"
      using Index_range [of cs m] by auto
    have eq: "take (nat (Index (c # cs) m)) (c # cs) = c # take (nat (Index cs m)) cs"
      using False i pos by (simp add: Let_def nat_add_distrib)
    have "\<not> prefix m (c # take (nat (Index cs m)) cs)"
    proof
      assume "prefix m (c # take (nat (Index cs m)) cs)"
      moreover have "prefix (c # take (nat (Index cs m)) cs) (c # cs)"
        by (simp add: take_is_prefix)
      ultimately have "prefix m (c # cs)"
        by (rule prefix_order.trans)
      with False show False ..
    qed
    moreover have "\<not> sublist m (take (nat (Index cs m)) cs)"
      by (rule Cons.IH [OF Cons.prems(1) i])
    ultimately show ?thesis
      unfolding eq by (simp add: sublist_Cons_right)
  qed
qed

section \<open>Properties of the sanitizer\<close>

lemma truncateAt_result:
  assumes "m \<noteq> []"
  shows "\<exists>t'. truncateAt m t = Inr t' \<and> prefix t' t \<and> \<not> sublist m t'"
proof (cases "Index t m = - 1")
  case True
  then show ?thesis
    by (simp add: truncateAt_def Index_none)
next
  case False
  then have "0 \<le> Index t m" "Index t m \<le> int (length t)"
    using Index_range [of t m] by auto
  then have "truncateAt m t = Inr (take (nat (Index t m)) t)"
    using False by (simp add: truncateAt_def slice_def)
  with Index_first [OF assms False] show ?thesis
    by (simp add: take_is_prefix)
qed

lemma truncateAt_absent: "\<not> sublist m t \<Longrightarrow> truncateAt m t = Inr t"
  by (simp add: truncateAt_def Index_none)

lemma cleanTranslationOutput_result:
  assumes "cleanTranslationOutput x = Inr y"
  shows "TrimSpace y = y" and "\<not> sublist noteMarker y" and "\<not> sublist explanationMarker y"
proof -
  from assms obtain t3 t4 t5 where
    t4: "truncateAt noteMarker t3 = Inr t4" and
    t5: "truncateAt explanationMarker t4 = Inr t5" and
    y: "y = TrimSpace t5"
    by (auto simp: cleanTranslationOutput_def split: sum.splits)
  have n4: "\<not> sublist noteMarker t4"
    using truncateAt_result [of noteMarker t3] t4 by (auto simp: noteMarker_def)
  have p5: "prefix t5 t4" and e5: "\<not> sublist explanationMarker t5"
    using truncateAt_result [of explanationMarker t4] t5 by (auto simp: explanationMarker_def)
  have sub: "sublist y t5"
    unfolding y by (rule sublist_TrimSpace)
  show "TrimSpace y = y"
    unfolding y by (rule TrimSpace_TrimSpace)
  show "\<not> sublist noteMarker y"
    using n4 p5 sub by (meson prefix_imp_sublist sublist_order.order.trans)
  show "\<not> sublist explanationMarker y"
    using e5 sub by (meson sublist_order.order.trans)
qed

lemma stripUnwantedPrefixes_none:
  "\<not> list_ex (HasPrefix y) ps \<Longrightarrow> foldl stripPrefix y ps = y"
  by (induction ps) (auto simp: stripPrefix_def)

section \<open>The sanitizer on concrete texts\<close>

lemma TrimSpace_Hello: "TrimSpace ''Hello'' = ''Hello''"
  by code_simp

lemma TrimSpace_annyeonghaseyo: "TrimSpace annyeonghaseyo = annyeonghaseyo"
  by code_simp

lemma TrimSpace_annyeonghaseyo_space: "TrimSpace (annyeonghaseyo @ '' '') = annyeonghaseyo"
  by code_simp

lemma TrimSpace_ownPost: "TrimSpace (Message ownPost) = Message ownPost"
  by code_simp

text \<open>
  C9: on the label \<open>Translation: \<close> followed by \<open>Hello\<close> in straight double quotes
  (\<open>0x22\<close>), the sanitizer returns exactly \<open>Hello\<close>.
\<close>

theorem clean_label_and_quotes:
  "cleanTranslationOutput (''Translation: '' @ [CHR 0x22] @ ''Hello'' @ [CHR 0x22]) = Inr ''Hello''"
  by code_simp

text \<open>
  C4: the sanitizer does not return on every input. A text that is one quote character
  is its own prefix and suffix, so the quote-removing step is entered with length 1 and
  \<open>text[1 : len(text)-1]\<close> is \<open>text[1:0]\<close>, which panics.
\<close>

theorem clean_lone_quote_panics:
  "cleanTranslationOutput [CHR 0x22] = Inl (SliceBoundsOutOfRange 1 0) \<and>
   cleanTranslationOutput [CHR 0x27] = Inl (SliceBoundsOutOfRange 1 0)"
  by code_simp

text \<open>The quote step is the only place where the sanitizer can fail.\<close>

lemma truncateAt_total: "\<exists>t'. truncateAt m t = Inr t'"
proof (cases "Index t m = - 1")
  case True
  then show ?thesis by (simp add: truncateAt_def)
next
  case False
  then show ?thesis
    using Index_range [of t m] by (auto simp: truncateAt_def slice_def)
qed

lemma quoted_length: "quoted t \<Longrightarrow> 1 \<le> length t"
  by (cases t) (auto simp: quoted_def HasPrefix_def)

lemma stripQuotes_panics_iff:
  "(\<exists>e. stripQuotes t = Inl e) \<longleftrightarrow> t = [CHR 0x22] \<or> t = [CHR 0x27]"
proof
  assume "\<exists>e. stripQuotes t = Inl e"
  then have q: "quoted t" and "length t < 2"
    by (auto simp: stripQuotes_def slice_def split: if_splits sum.splits)
  with quoted_length [OF q] have "length t = 1" by simp
  then obtain c where "t = [c]"
    by (cases t) auto
  with q show "t = [CHR 0x22] \<or> t = [CHR 0x27]"
    by (auto simp: quoted_def HasPrefix_def)
next
  assume "t = [CHR 0x22] \<or> t = [CHR 0x27]"
  then show "\<exists>e. stripQuotes t = Inl e"
    by (auto simp: stripQuotes_def quoted_def HasPrefix_def HasSuffix_def slice_def suffix_def)
qed

lemma cleanTranslationOutput_panics_iff:
  "(\<exists>e. cleanTranslationOutput x = Inl e) \<longleftrightarrow>
   stripUnwantedPrefixes (TrimSpace x) = [CHR 0x22] \<or>
   stripUnwantedPrefixes (TrimSpace x) = [CHR 0x27]"
proof -
  have "(\<exists>e. cleanTranslationOutput x = Inl e) \<longleftrightarrow>
        (\<exists>e. stripQuotes (stripUnwantedPrefixes (TrimSpace x)) = Inl e)"
  proof (cases "stripQuotes (stripUnwantedPrefixes (TrimSpace x))")
    case (Inl e)
    then show ?thesis by (simp add: cleanTranslationOutput_def)
  next
    case (Inr t3)
    obtain t4 where t4: "truncateAt noteMarker t3 = Inr t4"
      using truncateAt_total by blast
    obtain t5 where t5: "truncateAt explanationMarker t4 = Inr t5"
      using truncateAt_total by blast
    show ?thesis
      using Inr t4 t5 by (simp add: cleanTranslationOutput_def)
  qed
  then show ?thesis
    by (simp add: stripQuotes_panics_iff)
qed

text \<open>
  C3, as stated, fails: the loop strips each label at most once and the quote step takes
  off one layer, so a second run can strip more. \<open>Translation: Translation: Hello\<close>
  is cleaned to \<open>Translation: Hello\<close>, and that to \<open>Hello\<close>.
\<close>

theorem clean_twice_differs:
  "cleanTranslationOutput ''Translation: Translation: Hello'' = Inr ''Translation: Hello'' \<and>
   cleanTranslationOutput ''Translation: Hello'' = Inr ''Hello'' \<and>
   cleanTranslationOutput ''Translation: Hello'' \<noteq> Inr ''Translation: Hello''"
  by code_simp

text \<open>The same with two layers of quotes.\<close>

lemma clean_nested_quotes:
  "cleanTranslationOutput ([CHR 0x22, CHR 0x22] @ ''Hello'' @ [CHR 0x22, CHR 0x22]) =
     Inr ([CHR 0x22] @ ''Hello'' @ [CHR 0x22]) \<and>
   cleanTranslationOutput ([CHR 0x22] @ ''Hello'' @ [CHR 0x22]) = Inr ''Hello''"
  by code_simp

text \<open>
  C3, amended: a result of the sanitizer that starts with none of the labels and is not
  wrapped in a pair of straight quotes is left as it is by a second run.
\<close>

theorem clean_idempotent_once_settled:
  assumes "cleanTranslationOutput x = Inr y"
    and "\<not> list_ex (HasPrefix y) unwantedPrefixes"
    and "\<not> quoted y"
  shows "cleanTranslationOutput y = Inr y"
  using cleanTranslationOutput_result [OF assms(1)] assms(2,3)
  by (simp add: cleanTranslationOutput_def stripUnwantedPrefixes_def
      stripUnwantedPrefixes_none stripQuotes_def truncateAt_absent)

theorem clean_idempotent_once_settled_witness:
  "cleanTranslationOutput (''Translation: '' @ [CHR 0x22] @ ''Hello'' @ [CHR 0x22]) = Inr ''Hello'' \<and>
   \<not> list_ex (HasPrefix ''Hello'') unwantedPrefixes \<and>
   \<not> quoted ''Hello'' \<and>
   cleanTranslationOutput ''Hello'' = Inr ''Hello''"
proof -
  have h1: "cleanTranslationOutput (''Translation: '' @ [CHR 0x22] @ ''Hello'' @ [CHR 0x22]) = Inr ''Hello''"
    by code_simp
  have h2: "\<not> list_ex (HasPrefix ''Hello'') unwantedPrefixes"
    by (simp add: unwantedPrefixes_def HasPrefix_def)
  have h3: "\<not> quoted ''Hello''"
    by (simp add: quoted_def HasPrefix_def)
  from clean_idempotent_once_settled [OF h1 h2 h3] h1 h2 h3 show ?thesis
    by simp
qed

section \<open>The event gate\<close>

lemma created_subset:
  "tp \<in> set (outbound (MessageHasBeenPosted p post)) \<Longrightarrow>
   \<exists>userInfo translatedText. tp = translatedPost (getConfiguration p) post userInfo translatedText"
  by (auto simp: MessageHasBeenPosted_def outbound_def Let_def
      split: if_splits sum.splits failure.splits)

lemma created_subset_part_000:
  "tp \<in> set (outbound (MessageHasBeenPosted_part_000 p post)) \<Longrightarrow>
   \<exists>userInfo translatedText.
     tp = translatedPost_part_000 (getConfiguration p) post userInfo translatedText"
  by (auto simp: MessageHasBeenPosted_part_000_def outbound_def Let_def
      split: if_splits sum.splits failure.splits)

text \<open>
  C2: every post a run of the handler hands to \<open>CreatePost\<close>, in either revision,
  has the key \<open>from_plugin\<close> set to \<open>true\<close> in its \<open>Props\<close>.
\<close>

theorem outbound_carries_marker:
  "tp \<in> set (outbound (MessageHasBeenPosted p post)) \<or>
   tp \<in> set (outbound (MessageHasBeenPosted_part_000 p post)) \<Longrightarrow>
   Props tp ''from_plugin'' = Some (PropBool True)"
proof (erule disjE)
  assume "tp \<in> set (outbound (MessageHasBeenPosted p post))"
  then obtain userInfo translatedText where
    "tp = translatedPost (getConfiguration p) post userInfo translatedText"
    using created_subset by blast
  then show ?thesis
    by (simp add: translatedPost_def)
next
  assume "tp \<in> set (outbound (MessageHasBeenPosted_part_000 p post))"
  then obtain userInfo translatedText where
    "tp = translatedPost_part_000 (getConfiguration p) post userInfo translatedText"
    using created_subset_part_000 by blast
  then show ?thesis
    by (simp add: translatedPost_part_000_def)
qed

lemma Hello_differs: "TrimSpace ''Hello'' \<noteq> TrimSpace annyeonghaseyo"
  by code_simp

lemma example_run:
  "outbound (MessageHasBeenPosted (examplePlugin helloProvider) examplePost) =
     [translatedPost exampleConfiguration examplePost exampleUserInfo ''Hello'']"
  using Hello_differs
  by (simp add: MessageHasBeenPosted_def outbound_def examplePlugin_def helloProvider_def
      examplePost_def exampleUserInfo_def IsSystemMessage_def HasPrefix_def)

theorem outbound_carries_marker_witness:
  "translatedPost exampleConfiguration examplePost exampleUserInfo ''Hello''
     \<in> set (outbound (MessageHasBeenPosted (examplePlugin helloProvider) examplePost)) \<and>
   Props (translatedPost exampleConfiguration examplePost exampleUserInfo ''Hello'')
     ''from_plugin'' = Some (PropBool True)"
proof -
  have h: "translatedPost exampleConfiguration examplePost exampleUserInfo ''Hello''
     \<in> set (outbound (MessageHasBeenPosted (examplePlugin helloProvider) examplePost))"
    by (simp add: example_run)
  from outbound_carries_marker [OF disjI1 [OF h]] h show ?thesis
    by simp
qed

text \<open>
  The revision \<open>unnamed/part_000\<close> has the loop guard: a post with the key
  \<open>from_plugin\<close> ends the run with no effect, whatever the host and the preferences
  would answer (so also where resolving the user would fail and be logged).
\<close>

lemma loop_guard_part_000:
  "Props post ''from_plugin'' \<noteq> None \<Longrightarrow> MessageHasBeenPosted_part_000 p post = Inr []"
  by (simp add: MessageHasBeenPosted_part_000_def)

text \<open>
  C1: the handler of \<open>server/activate_hooks.go\<close> has no such check. Its own post for
  \<open>examplePost\<close> carries the marker, is authored by the same user (not a bot, translation
  switched on), and is translated again: the run creates one more post.
\<close>

theorem own_post_translated_again:
  "Props ownPost ''from_plugin'' = Some (PropBool True) \<and>
   map Message (outbound (MessageHasBeenPosted (examplePlugin helloProvider) ownPost)) =
     [''**[ko '' @ [CHR 0xE2, CHR 0x86, CHR 0x92] @ '' en]**'' @ [CHR 0x0A] @ ''Hello'']"
  by code_simp

text \<open>
  C6: when the event passes the checks before the translation and the translated text,
  trimmed, equals the message, trimmed, the run has no effect at all: no post and no
  logged error, in both revisions.
\<close>

theorem same_text_short_circuit:
  assumes "\<not> IsSystemMessage post"
    and "GetUser p (UserId post) = Inr user" and "\<not> IsBot user"
    and "getUserInfo p (UserId post) = Inr userInfo" and "Activated userInfo"
    and "getTranslationProvider p = Inr provider"
    and "provider (Message post) (SourceLanguage userInfo) (TargetLanguage userInfo) =
           Inr translatedText"
    and "TrimSpace translatedText = TrimSpace (Message post)"
  shows "MessageHasBeenPosted p post = Inr [] \<and> MessageHasBeenPosted_part_000 p post = Inr []"
  using assms
  by (simp add: MessageHasBeenPosted_def MessageHasBeenPosted_part_000_def)

theorem same_text_short_circuit_witness:
  "echoProvider (Message examplePost) ''ko'' ''en'' = Inr (annyeonghaseyo @ '' '') \<and>
   annyeonghaseyo @ '' '' \<noteq> Message examplePost \<and>
   MessageHasBeenPosted (examplePlugin echoProvider) examplePost = Inr [] \<and>
   MessageHasBeenPosted_part_000 (examplePlugin echoProvider) examplePost = Inr []"
proof -
  let ?p = "examplePlugin echoProvider"
  have h1: "\<not> IsSystemMessage examplePost"
    by (simp add: IsSystemMessage_def HasPrefix_def examplePost_def)
  have h2: "GetUser ?p (UserId examplePost) = Inr \<lparr>IsBot = False\<rparr>"
    by (simp add: examplePlugin_def)
  have h3: "\<not> IsBot \<lparr>IsBot = False\<rparr>"
    by simp
  have h4: "getUserInfo ?p (UserId examplePost) = Inr exampleUserInfo"
    by (simp add: examplePlugin_def)
  have h5: "Activated exampleUserInfo"
    by (simp add: exampleUserInfo_def)
  have h6: "getTranslationProvider ?p = Inr echoProvider"
    by (simp add: examplePlugin_def)
  have h7: "echoProvider (Message examplePost) (SourceLanguage exampleUserInfo)
              (TargetLanguage exampleUserInfo) = Inr (annyeonghaseyo @ '' '')"
    by (simp add: echoProvider_def examplePost_def)
  have h8: "TrimSpace (annyeonghaseyo @ '' '') = TrimSpace (Message examplePost)"
    by (simp add: examplePost_def TrimSpace_annyeonghaseyo TrimSpace_annyeonghaseyo_space)
  from same_text_short_circuit [OF h1 h2 h3 h4 h5 h6 h7 h8] show ?thesis
    by (simp add: echoProvider_def examplePost_def)
qed

text \<open>
  On a message that is not itself a reply, \<open>server/activate_hooks.go\<close> does what C5
  says: when the translation succeeds with a text that differs from the message and the
  host accepts the post, the run has exactly one effect, the creation of a post threaded
  to the original, with the original author and channel, whose body is the header in
  bold, a line feed and the translated text; the source shown is \<open>detected\<close> when the
  preference is \<open>auto\<close> and the preference itself otherwise.
\<close>

lemma composed_post:
  assumes "\<not> IsSystemMessage post"
    and "GetUser p (UserId post) = Inr user" and "\<not> IsBot user"
    and "getUserInfo p (UserId post) = Inr userInfo" and "Activated userInfo"
    and "getTranslationProvider p = Inr provider"
    and "provider (Message post) (SourceLanguage userInfo) (TargetLanguage userInfo) =
           Inr translatedText"
    and "TrimSpace translatedText \<noteq> TrimSpace (Message post)"
    and "RootId post = []"
    and "CreatePost p (translatedPost (getConfiguration p) post userInfo translatedText) =
           Inr accepted"
  shows "\<exists>tp. MessageHasBeenPosted p post = Inr [CreatePostCall tp] \<and>
           RootId tp = Id post \<and> UserId tp = UserId post \<and> ChannelId tp = ChannelId post \<and>
           Message tp =
             ''**['' @ (if SourceLanguage userInfo = ''auto'' then ''detected''
                        else SourceLanguage userInfo) @
             '' '' @ [CHR 0xE2, CHR 0x86, CHR 0x92] @ '' '' @ TargetLanguage userInfo @
             '']**'' @ [CHR 0x0A] @ translatedText"
  using assms
  by (simp add: MessageHasBeenPosted_def translatedPost_def botMessage_def
      sourceLangDisplay_def Let_def)

text \<open>
  The revision \<open>unnamed/part_000\<close> copies the \<open>RootId\<close> of the original, leaves the body
  empty and puts the header and the translated text into one attachment.
\<close>

lemma composed_post_part_000:
  assumes "\<not> IsSystemMessage post" and "Props post ''from_plugin'' = None"
    and "GetUser p (UserId post) = Inr user" and "\<not> IsBot user"
    and "getUserInfo p (UserId post) = Inr userInfo" and "Activated userInfo"
    and "getTranslationProvider p = Inr provider"
    and "provider (Message post) (SourceLanguage userInfo) (TargetLanguage userInfo) =
           Inr translatedText"
    and "TrimSpace translatedText \<noteq> TrimSpace (Message post)"
    and "CreatePost p (translatedPost_part_000 (getConfiguration p) post userInfo
           translatedText) = Inr accepted"
  shows "\<exists>tp. MessageHasBeenPosted_part_000 p post = Inr [CreatePostCall tp] \<and>
           RootId tp = RootId post \<and> UserId tp = UserId post \<and>
           ChannelId tp = ChannelId post \<and> Message tp = [] \<and>
           Props tp ''attachments'' =
             Some (PropAttachments
               [\<lparr>Text = translatedText,
                 Pretext = [CHR 0xF0, CHR 0x9F, CHR 0x8C, CHR 0x90] @ '' **Translation** ['' @
                   (if SourceLanguage userInfo = ''auto'' then ''detected''
                    else SourceLanguage userInfo) @
                   '' '' @ [CHR 0xE2, CHR 0x86, CHR 0x92] @ '' '' @ TargetLanguage userInfo @
                   '']'',
                 Color = ''#3AA3E3''\<rparr>])"
  using assms
  by (simp add: MessageHasBeenPosted_part_000_def translatedPost_part_000_def
      sourceLangDisplay_def Let_def)

text \<open>
  C5: on a message that is itself a reply, \<open>server/activate_hooks.go\<close> still sets
  \<open>RootId\<close> to the identifier of that message. For the reply \<open>post2\<close> in the thread of
  \<open>post0\<close>, the post handed to the host is threaded to \<open>post2\<close>, whatever the host
  answers, and where the host accepts it that post is the one effect of the run. The
  revision \<open>unnamed/part_000\<close> hands over a post threaded to the root \<open>post0\<close>.
\<close>

theorem reply_not_threaded_to_root:
  "Id replyPost = ''post2'' \<and> RootId replyPost = ''post0'' \<and>
   map RootId (outbound (MessageHasBeenPosted
     ((examplePlugin helloProvider)\<lparr>CreatePost := host\<rparr>) replyPost)) = [''post2''] \<and>
   MessageHasBeenPosted (examplePlugin helloProvider) replyPost =
     Inr [CreatePostCall (translatedPost exampleConfiguration replyPost exampleUserInfo
            ''Hello'')] \<and>
   RootId (translatedPost exampleConfiguration replyPost exampleUserInfo ''Hello'') =
     ''post2'' \<and>
   map RootId (outbound (MessageHasBeenPosted_part_000
     ((examplePlugin helloProvider)\<lparr>CreatePost := host\<rparr>) replyPost)) = [''post0'']"
proof (intro conjI)
  show "Id replyPost = ''post2''" and "RootId replyPost = ''post0''"
    by (simp_all add: replyPost_def)
  show "map RootId (outbound (MessageHasBeenPosted
     ((examplePlugin helloProvider)\<lparr>CreatePost := host\<rparr>) replyPost)) = [''post2'']"
    using Hello_differs
    by (simp add: MessageHasBeenPosted_def outbound_def examplePlugin_def helloProvider_def
        replyPost_def examplePost_def exampleUserInfo_def IsSystemMessage_def HasPrefix_def
        translatedPost_def Let_def split: sum.splits)
  show "MessageHasBeenPosted (examplePlugin helloProvider) replyPost =
     Inr [CreatePostCall (translatedPost exampleConfiguration replyPost exampleUserInfo
            ''Hello'')]"
    using Hello_differs
    by (simp add: MessageHasBeenPosted_def examplePlugin_def helloProvider_def
        replyPost_def examplePost_def exampleUserInfo_def IsSystemMessage_def HasPrefix_def)
  show "RootId (translatedPost exampleConfiguration replyPost exampleUserInfo ''Hello'') =
     ''post2''"
    by (simp add: translatedPost_def replyPost_def)
  show "map RootId (outbound (MessageHasBeenPosted_part_000
     ((examplePlugin helloProvider)\<lparr>CreatePost := host\<rparr>) replyPost)) = [''post0'']"
    using Hello_differs
    by (simp add: MessageHasBeenPosted_part_000_def outbound_def examplePlugin_def
        helloProvider_def replyPost_def examplePost_def exampleUserInfo_def
        IsSystemMessage_def HasPrefix_def translatedPost_part_000_def Let_def
        split: sum.splits)
qed

section \<open>The providers\<close>

text \<open>
  C7: in both LLM-backed providers, a response with status 200 whose decoded \<open>choices\<close>
  array is empty makes \<open>Translate\<close> return the error \<open>no translation returned from ...\<close>:
  no text, no panic.
\<close>

theorem empty_choices_is_error:
  "(http (VLLM_req p text sourceLang targetLang) = Responded resp \<and>
    StatusCode resp = 200 \<and> Decoded resp = Inr [] \<longrightarrow>
    VLLM_Translate http p text sourceLang targetLang =
      Inl (Err ''no translation returned from vLLM'')) \<and>
   (http' (LiteLLM_req q text sourceLang targetLang) = Responded resp' \<and>
    StatusCode resp' = 200 \<and> Decoded resp' = Inr [] \<longrightarrow>
    LiteLLM_Translate http' q text sourceLang targetLang =
      Inl (Err ''no translation returned from LiteLLM''))"
  by (simp add: VLLM_Translate_def LiteLLM_Translate_def)

theorem empty_choices_is_error_witness:
  "VLLM_Translate noChoices exampleVLLM annyeonghaseyo ''ko'' ''en'' =
     Inl (Err ''no translation returned from vLLM'') \<and>
   LiteLLM_Translate noChoices exampleLiteLLM annyeonghaseyo ''ko'' ''en'' =
     Inl (Err ''no translation returned from LiteLLM'')"
  using empty_choices_is_error [of noChoices exampleVLLM annyeonghaseyo "''ko''" "''en''"
      "\<lparr>StatusCode = 200, Body = ''{'' @ [CHR 0x22] @ ''choices'' @ [CHR 0x22] @ '':[]}'',
        Decoded = Inr []\<rparr>"
      noChoices exampleLiteLLM
      "\<lparr>StatusCode = 200, Body = ''{'' @ [CHR 0x22] @ ''choices'' @ [CHR 0x22] @ '':[]}'',
        Decoded = Inr []\<rparr>"]
  by (simp add: noChoices_def)

text \<open>The handler then logs the error and creates no post.\<close>

lemma noChoices_vllm:
  "VLLM_Translate noChoices exampleVLLM text sourceLang targetLang =
     Inl (Err ''no translation returned from vLLM'')"
  by (simp add: VLLM_Translate_def noChoices_def)

lemma empty_choices_no_post:
  "MessageHasBeenPosted (examplePlugin (VLLM_Translate noChoices exampleVLLM)) examplePost =
     Inr [LogError ''Failed to translate message'' ''no translation returned from vLLM'']"
  by (simp add: MessageHasBeenPosted_def examplePlugin_def examplePost_def exampleUserInfo_def
      IsSystemMessage_def HasPrefix_def noChoices_vllm)

lemma en_name: "getLanguageName ''en'' = ''English''"
  by (simp add: getLanguageName_def languageNames_def)

lemma en_clarification: "getLanguageClarification ''en'' = '' (English)''"
  by (simp add: getLanguageClarification_def clarifications_def)

text \<open>
  C8: with the source language \<open>auto\<close> both prompt builders write \<open>Translate to\<close>, the
  name of the target and its clarification, and nothing about a source: the prompt does
  not start with \<open>Translate from\<close>, and for the Korean text of the spec's example (6 bytes
  of UTF-8) and the target \<open>en\<close> the word \<open>from\<close> occurs nowhere in it.
\<close>

theorem auto_prompt_has_no_from_clause:
  "createTranslationPrompt text ''auto'' targetLang =
     ''Translate to '' @ getLanguageName targetLang @ getLanguageClarification targetLang @
     ''. Reply with ONLY the translation.'' @ [CHR 0x0A, CHR 0x0A] @ text \<and>
   userPrompt text ''auto'' targetLang =
     ''Translate to '' @ getLanguageName targetLang @ getLanguageClarification targetLang @
     '':'' @ [CHR 0x0A, CHR 0x0A] @ text \<and>
   \<not> HasPrefix (createTranslationPrompt text ''auto'' targetLang) ''Translate from'' \<and>
   \<not> HasPrefix (userPrompt text ''auto'' targetLang) ''Translate from'' \<and>
   Index (createTranslationPrompt [CHR 0xEC, CHR 0x95, CHR 0x88, CHR 0xEB, CHR 0x85, CHR 0x95]
            ''auto'' ''en'') ''from'' = - 1 \<and>
   Index (userPrompt [CHR 0xEC, CHR 0x95, CHR 0x88, CHR 0xEB, CHR 0x85, CHR 0x95]
            ''auto'' ''en'') ''from'' = - 1"
proof (intro conjI)
  show "createTranslationPrompt text ''auto'' targetLang =
     ''Translate to '' @ getLanguageName targetLang @ getLanguageClarification targetLang @
     ''. Reply with ONLY the translation.'' @ [CHR 0x0A, CHR 0x0A] @ text"
    by (simp add: createTranslationPrompt_def)
  show "userPrompt text ''auto'' targetLang =
     ''Translate to '' @ getLanguageName targetLang @ getLanguageClarification targetLang @
     '':'' @ [CHR 0x0A, CHR 0x0A] @ text"
    by (simp add: userPrompt_def)
  show "\<not> HasPrefix (createTranslationPrompt text ''auto'' targetLang) ''Translate from''"
    by (simp add: createTranslationPrompt_def HasPrefix_def)
  show "\<not> HasPrefix (userPrompt text ''auto'' targetLang) ''Translate from''"
    by (simp add: userPrompt_def HasPrefix_def)
  show "Index (createTranslationPrompt [CHR 0xEC, CHR 0x95, CHR 0x88, CHR 0xEB, CHR 0x85, CHR 0x95]
            ''auto'' ''en'') ''from'' = - 1"
    by (simp add: createTranslationPrompt_def en_name en_clarification)
  show "Index (userPrompt [CHR 0xEC, CHR 0x95, CHR 0x88, CHR 0xEB, CHR 0x85, CHR 0x95]
            ''auto'' ''en'') ''from'' = - 1"
    by (simp add: userPrompt_def en_name en_clarification)
qed

text \<open>
  C10: the request each variant hands to the HTTP exchange is the one built from
  \<open>reqBody\<close> (an exchange that fails with whatever it reads off the request it is given
  shows which request that is). The chat request is issued with \<open>MaxTokens\<close> 2048, the
  completion request with 512; the completion request carries six stop sequences and
  its JSON has the key \<open>stop\<close>, while a chat request has no such field.
\<close>

theorem chat_cap_exceeds_completion_cap:
  "VLLM_Translate (\<lambda>req. DoError (observe req)) p text' sourceLang' targetLang' =
     Inl (Err (''vLLM API request failed: '' @
       observe (VLLM_req p text' sourceLang' targetLang'))) \<and>
   LiteLLM_Translate (\<lambda>req. DoError (observe' req)) q text sourceLang targetLang =
     Inl (Err (''LiteLLM API request failed: '' @
       observe' (LiteLLM_req q text sourceLang targetLang))) \<and>
   LiteLLMChatRequest.MaxTokens
     (Request.Body (LiteLLM_req q text sourceLang targetLang)) = 2048 \<and>
   VLLMRequest.MaxTokens (Request.Body (VLLM_req p text' sourceLang' targetLang')) = 512 \<and>
   VLLMRequest.MaxTokens (Request.Body (VLLM_req p text' sourceLang' targetLang')) <
     LiteLLMChatRequest.MaxTokens
       (Request.Body (LiteLLM_req q text sourceLang targetLang)) \<and>
   Stop (Request.Body (VLLM_req p text' sourceLang' targetLang')) =
     [[CHR 0x0A, CHR 0x0A], [CHR 0x0A] @ ''Note:'', [CHR 0x0A] @ ''Explanation:'',
      [CHR 0x0A] @ ''Translation:'', [CHR 0x0A, CHR 0x0A] @ ''Input:'', ''[/INST]''] \<and>
   Stop (Request.Body (VLLM_req p text' sourceLang' targetLang')) \<noteq> [] \<and>
   ''stop'' \<in> set (VLLMRequest_keys
     (Request.Body (VLLM_req p text' sourceLang' targetLang'))) \<and>
   ''stop'' \<notin> set (LiteLLMChatRequest_keys
     (Request.Body (LiteLLM_req q text sourceLang targetLang)))"
proof (intro conjI)
  show "VLLM_Translate (\<lambda>req. DoError (observe req)) p text' sourceLang' targetLang' =
     Inl (Err (''vLLM API request failed: '' @
       observe (VLLM_req p text' sourceLang' targetLang')))"
    by (simp add: VLLM_Translate_def)
  show "LiteLLM_Translate (\<lambda>req. DoError (observe' req)) q text sourceLang targetLang =
     Inl (Err (''LiteLLM API request failed: '' @
       observe' (LiteLLM_req q text sourceLang targetLang)))"
    by (simp add: LiteLLM_Translate_def)
qed (simp_all add: VLLM_req_def LiteLLM_req_def LiteLLM_reqBody_def VLLM_reqBody_def
    VLLMRequest_keys_def LiteLLMChatRequest_keys_def)

end
